theory Spec2Isabelle
  imports Main "HOL-Library.Word"
begin

section \<open>Common model of the C program\<close>

text \<open>
  The theory embeds \<^verbatim>\<open>src/bluetooth/bt.c\<close>. Every function of the source that returns
  an error string (\<^verbatim>\<open>char*\<close>, NULL on success) returns a \<open>bt_error option\<close> here
  (\<open>None\<close> is NULL). One constructor stands for each message the source formats; the
  names are those of the error taxonomy, the message is quoted beside each. The
  \<^verbatim>\<open>errno\<close> text of a message is not modelled.
\<close>

type_synonym byte = "8 word"

datatype bt_error =
    InvalidArgument            \<comment> \<open>"can't pass negative device id for bt_open_device()."\<close>
  | SocketError                \<comment> \<open>"can't open HCI socket:..."\<close>
  | DeviceInfoError            \<comment> \<open>"can't get device info:..."\<close>
  | OpenError int              \<comment> \<open>"can't open device %d:..."\<close>
  | CloseError int             \<comment> \<open>"can't close device with dd: %d, ..."\<close>
  | NoDeviceAvailable          \<comment> \<open>"can't find an available bluetooth device"\<close>
  | NoChannelAvailable         \<comment> \<open>"can't find an available bluetooth channel"\<close>
  | BindError int string int   \<comment> \<open>"can't bind to socket %d, addr %s, channel %d, ..."\<close>
  | PayloadTooLarge            \<comment> \<open>"payload too big"\<close>
  | CommandFailed int          \<comment> \<open>"can't set advertising data for dd: %d, ..."\<close>
  | WrongEventType int         \<comment> \<open>"wrong event type: %d"\<close>

text \<open>
  A call either returns, or runs into undefined behaviour of C (a write through a null
  pointer, a read or a copy outside the object: \<open>Fault\<close>), or the model's recursion
  budget ends before the call returns (\<open>OutOfFuel\<close>).
\<close>

datatype 'a outcome = Returns 'a | Fault | OutOfFuel

text \<open>A \<^verbatim>\<open>char*\<close> variable that the program allocates and frees.\<close>

datatype 'a ptr = Null | Ptr 'a | Freed

definition kMaxAddrStrSize :: int where "kMaxAddrStrSize = 18"
definition kMaxLEPayloadSize :: int where "kMaxLEPayloadSize = 26"
definition kMaxChannel :: int where "kMaxChannel = 30"
definition kMaxDevices :: int where "kMaxDevices = 5"

definition EIR_FLAGS :: byte where "EIR_FLAGS = 0x01"
definition EIR_NAME_SHORT :: int where "EIR_NAME_SHORT = 0x08"
definition EIR_NAME_COMPLETE :: int where "EIR_NAME_COMPLETE = 0x09"

subsection \<open>The operating system\<close>

text \<open>
  The program talks to the kernel and to the BlueZ library. The world is the log of the
  calls made so far, oldest first; the environment gives the result of each call as a
  function of that log and of the call's arguments, so the result of a call may depend
  on everything that happened before it.
\<close>

record hci_request =
  ogf :: nat
  ocf :: nat
  cparam :: "byte list"
  clen :: nat
  rlen :: nat

datatype bdaddr_t = Bdaddr byte byte byte byte byte byte   \<comment> \<open>\<open>b[0] ... b[5]\<close>\<close>

datatype syscall =
    Sys_socket                          \<comment> \<open>\<^verbatim>\<open>socket(AF_BLUETOOTH, SOCK_RAW, BTPROTO_HCI)\<close>\<close>
  | Sys_ioctl_HCIGETDEVINFO int int     \<comment> \<open>socket, device id\<close>
  | Sys_ioctl_HCIDEVUP int int          \<comment> \<open>socket, device id\<close>
  | Sys_hci_open_dev int                \<comment> \<open>device id\<close>
  | Sys_hci_devba int                   \<comment> \<open>device id\<close>
  | Sys_hci_close_dev int               \<comment> \<open>device descriptor\<close>
  | Sys_close int                       \<comment> \<open>socket\<close>
  | Sys_bind int string byte            \<comment> \<open>socket, address text, \<^verbatim>\<open>rc_channel\<close>\<close>
  | Sys_hci_send_req int hci_request int  \<comment> \<open>descriptor, request, timeout\<close>

type_synonym world = "syscall list"

record env =
  socket_result :: "world \<Rightarrow> int"
  getdevinfo_result :: "world \<Rightarrow> int \<Rightarrow> int \<Rightarrow> string option"
    \<comment> \<open>\<open>Some di.name\<close> when the ioctl returns 0, \<open>None\<close> when it returns a negative value\<close>
  hci_open_dev_result :: "world \<Rightarrow> int \<Rightarrow> int"
  hci_devba_result :: "world \<Rightarrow> int \<Rightarrow> bdaddr_t"
  hci_close_dev_result :: "world \<Rightarrow> int \<Rightarrow> int"
  bind_result :: "world \<Rightarrow> int \<Rightarrow> string \<Rightarrow> byte \<Rightarrow> int"
  hci_send_req_result :: "world \<Rightarrow> int \<Rightarrow> hci_request \<Rightarrow> int \<Rightarrow> int"

subsection \<open>Library functions\<close>

text \<open>
  \<^verbatim>\<open>asprintf(strp, fmt, ...)\<close> stores a newly allocated string in \<^verbatim>\<open>*strp\<close>. Its first
  argument is the address of a \<^verbatim>\<open>char*\<close> variable; the only such variable of the program
  is the local \<^verbatim>\<open>err\<close>. Given a null pointer it writes through it.
\<close>

datatype strp = Null_strp | Address_of_err

definition asprintf :: "strp \<Rightarrow> bt_error \<Rightarrow> bt_error option \<Rightarrow> bt_error option outcome" where
  "asprintf strp msg err =
     (case strp of Null_strp \<Rightarrow> Fault | Address_of_err \<Rightarrow> Returns (Some msg))"

definition hex_digit :: "nat \<Rightarrow> char" where
  "hex_digit n = (''0123456789ABCDEF'') ! (n mod 16)"

definition hex2 :: "byte \<Rightarrow> string" where
  "hex2 b = [hex_digit (unat b div 16), hex_digit (unat b mod 16)]"

text \<open>
  Modelled from the spec: \<^verbatim>\<open>ba2str\<close> is a function of the BlueZ library, not of this
  repository. It renders the six octets high-to-low, colon-separated, as
  \<^verbatim>\<open>"%2.2X:%2.2X:%2.2X:%2.2X:%2.2X:%2.2X"\<close> of \<open>b[5], ..., b[0]\<close>.
\<close>

fun ba2str :: "bdaddr_t \<Rightarrow> string" where
  "ba2str (Bdaddr b0 b1 b2 b3 b4 b5) =
     hex2 b5 @ '':'' @ hex2 b4 @ '':'' @ hex2 b3 @ '':'' @ hex2 b2 @ '':'' @ hex2 b1 @ '':'' @ hex2 b0"

section \<open>Opening and closing a controller\<close>

text \<open>
  What \<^verbatim>\<open>bt_open_device\<close> stored through its output pointers \<^verbatim>\<open>dd\<close>, \<^verbatim>\<open>name\<close> and
  \<^verbatim>\<open>local_address\<close>: \<open>None\<close> where the call did not write.
\<close>

record open_writes =
  dd_written :: "int option"
  name_written :: "string option"
  local_address_written :: "string option"

definition no_writes :: open_writes where
  "no_writes = \<lparr>dd_written = None, name_written = None, local_address_written = None\<rparr>"

text \<open>
  Lines 38-85. The local \<^verbatim>\<open>err\<close> is NULL when line 46 runs, and line 46 passes
  \<^verbatim>\<open>err\<close> itself, not its address, to \<^verbatim>\<open>asprintf\<close>; every other call passes
  \<^verbatim>\<open>&err\<close>. The raw socket stays open on the success path, as in the source. The sizes
  of the two allocations are not modelled.
\<close>

definition bt_open_device :: "env \<Rightarrow> world \<Rightarrow> int \<Rightarrow> (bt_error option \<times> world \<times> open_writes) outcome" where
  "bt_open_device e w dev_id =
     (if dev_id < 0 then
        (case asprintf Null_strp InvalidArgument None of
           Returns err \<Rightarrow> Returns (err, w, no_writes)
         | Fault \<Rightarrow> Fault
         | OutOfFuel \<Rightarrow> OutOfFuel)
      else
        let sock = socket_result e w; w1 = w @ [Sys_socket] in
        if sock < 0 then Returns (Some SocketError, w1, no_writes)
        else
          let di = getdevinfo_result e w1 sock dev_id;
              w2 = w1 @ [Sys_ioctl_HCIGETDEVINFO sock dev_id] in
          (case di of
             None \<Rightarrow> Returns (Some DeviceInfoError, w2 @ [Sys_close sock], no_writes)
           | Some di_name \<Rightarrow>
               let w3 = w2 @ [Sys_ioctl_HCIDEVUP sock dev_id];
                   dd = hci_open_dev_result e w3 dev_id;
                   w4 = w3 @ [Sys_hci_open_dev dev_id] in
               if dd < 0 then
                 Returns (Some (OpenError dev_id), w4 @ [Sys_close sock],
                   no_writes\<lparr>name_written := Some di_name, dd_written := Some dd\<rparr>)
               else
                 let loc_addr = hci_devba_result e w4 dev_id;
                     w5 = w4 @ [Sys_hci_devba dev_id] in
                 Returns (None, w5,
                   \<lparr>dd_written = Some dd, name_written = Some di_name,
                    local_address_written = Some (ba2str loc_addr)\<rparr>)))"

text \<open>Lines 167-174.\<close>

definition bt_close_device :: "env \<Rightarrow> world \<Rightarrow> int \<Rightarrow> bt_error option \<times> world" where
  "bt_close_device e w dd =
     (if hci_close_dev_result e w dd < 0 then (Some (CloseError dd), w @ [Sys_hci_close_dev dd])
      else (None, w @ [Sys_hci_close_dev dd]))"

section \<open>Binding a socket\<close>

text \<open>
  Lines 87-133. \<^verbatim>\<open>bt_bind\<close> calls itself from inside its two loops, and the loops pass
  it the caller's \<^verbatim>\<open>local_address\<close> and \<^verbatim>\<open>channel\<close> pointers, so what the inner call
  leaves in \<^verbatim>\<open>*channel\<close> is what the loop continues with. The model threads both
  variables through every call: a call returns the error, the world, and the final
  values of \<^verbatim>\<open>*local_address\<close> and \<^verbatim>\<open>*channel\<close>. \<open>bt_bind_devices\<close> is the loop of
  lines 95-108 from the device id \<open>dev_id\<close> on, \<open>bt_bind_channels\<close> the loop of lines
  113-119 from the current \<^verbatim>\<open>*channel\<close> on. One unit of fuel is one nested call.

  The local \<^verbatim>\<open>dd\<close> is read only after \<^verbatim>\<open>bt_open_device\<close> has written it; the local
  \<^verbatim>\<open>name\<close> is never read. \<^verbatim>\<open>free(*local_address)\<close> leaves the pointer dangling
  (\<open>Freed\<close>). The cast \<^verbatim>\<open>(uint8_t) *channel\<close> is \<open>of_int\<close>.
\<close>

type_synonym bind_state = "bt_error option \<times> world \<times> string ptr \<times> int"

fun bt_bind :: "nat \<Rightarrow> env \<Rightarrow> world \<Rightarrow> int \<Rightarrow> string ptr \<Rightarrow> int \<Rightarrow> bind_state outcome"
  and bt_bind_devices :: "nat \<Rightarrow> env \<Rightarrow> world \<Rightarrow> int \<Rightarrow> string ptr \<Rightarrow> int \<Rightarrow> int \<Rightarrow> bind_state outcome"
  and bt_bind_channels :: "nat \<Rightarrow> env \<Rightarrow> world \<Rightarrow> int \<Rightarrow> string ptr \<Rightarrow> int \<Rightarrow> bind_state outcome"
where
  "bt_bind 0 e w sock local_address channel = OutOfFuel"
| "bt_bind (Suc fuel) e w sock local_address channel =
     (if local_address = Null then bt_bind_devices fuel e w sock local_address channel 0
      else if channel = 0 then bt_bind_channels fuel e w sock local_address 1
      else
        (case local_address of
           Ptr a \<Rightarrow>
             let rc_channel = (of_int channel :: byte);
                 r = bind_result e w sock a rc_channel;
                 w1 = w @ [Sys_bind sock a rc_channel] in
             if r < 0 then Returns (Some (BindError sock a channel), w1, local_address, channel)
             else Returns (None, w1, local_address, channel)
         | _ \<Rightarrow> Fault))"
| "bt_bind_devices 0 e w sock local_address channel dev_id = OutOfFuel"
| "bt_bind_devices (Suc fuel) e w sock local_address channel dev_id =
     (if dev_id < kMaxDevices then
        (case bt_open_device e w dev_id of
           Returns (err, w1, wr) \<Rightarrow>
             let la1 = (case local_address_written wr of Some a \<Rightarrow> Ptr a | None \<Rightarrow> local_address) in
             if err \<noteq> None then bt_bind_devices fuel e w1 sock la1 channel (dev_id + 1)
             else
               (case dd_written wr of
                  None \<Rightarrow> Fault
                | Some dd \<Rightarrow>
                    let w2 = snd (bt_close_device e w1 dd) in
                    if la1 = Null then Fault
                    else
                      (case bt_bind fuel e w2 sock la1 channel of
                         Returns (err2, w3, la3, ch3) \<Rightarrow>
                           if err2 \<noteq> None then bt_bind_devices fuel e w3 sock Freed ch3 (dev_id + 1)
                           else Returns (None, w3, la3, ch3)
                       | Fault \<Rightarrow> Fault
                       | OutOfFuel \<Rightarrow> OutOfFuel))
         | Fault \<Rightarrow> Fault
         | OutOfFuel \<Rightarrow> OutOfFuel)
      else Returns (Some NoDeviceAvailable, w, local_address, channel))"
| "bt_bind_channels 0 e w sock local_address channel = OutOfFuel"
| "bt_bind_channels (Suc fuel) e w sock local_address channel =
     (if channel < kMaxChannel then
        (case bt_bind fuel e w sock local_address channel of
           Returns (err, w1, la1, ch1) \<Rightarrow>
             if err \<noteq> None then bt_bind_channels fuel e w1 sock la1 (ch1 + 1)
             else Returns (None, w1, la1, ch1)
         | Fault \<Rightarrow> Fault
         | OutOfFuel \<Rightarrow> OutOfFuel)
      else Returns (Some NoChannelAvailable, w, local_address, channel))"

section \<open>The advertising payload\<close>

text \<open>
  Modelled from the spec: \<^verbatim>\<open>le_set_advertising_data_cp\<close> is declared in the BlueZ header
  \<^verbatim>\<open>hci.h\<close>, not in this repository: one length byte and the 31 bytes of the
  advertising data field, 32 bytes in all (\<^verbatim>\<open>LE_SET_ADVERTISING_DATA_CP_SIZE\<close>).
\<close>

record le_set_advertising_data_cp =
  length_cp :: byte
  data_cp :: "byte list"

text \<open>
  A C string is modelled by its bytes before the terminating NUL, so \<^verbatim>\<open>strlen\<close> is the
  length of the list.
\<close>

definition strlen :: "byte list \<Rightarrow> nat" where
  "strlen s = length s"

definition memset_adv_data_cp :: le_set_advertising_data_cp where
  "memset_adv_data_cp = \<lparr>length_cp = 0, data_cp = replicate 31 0\<rparr>"

text \<open>\<^verbatim>\<open>memcpy(&dst[idx], src, n)\<close> for a copy that stays inside \<open>dst\<close>.\<close>

definition memcpy_at :: "byte list \<Rightarrow> nat \<Rightarrow> byte list \<Rightarrow> nat \<Rightarrow> byte list" where
  "memcpy_at dst idx src n = take idx dst @ take n src @ drop (idx + n) dst"

text \<open>Lines 248-257: the command parameter built from the payload.\<close>

definition encode_adv_data :: "byte list \<Rightarrow> le_set_advertising_data_cp" where
  "encode_adv_data adv_payload =
     (let cp0 = memset_adv_data_cp;
          d0 = (data_cp cp0)[0 := 2];
          d1 = d0[1 := EIR_FLAGS];
          d2 = d1[2 := 0x06];
          d3 = d2[3 := of_nat (strlen adv_payload + 1)];
          d4 = d3[4 := of_int EIR_NAME_COMPLETE];
          d5 = memcpy_at d4 5 adv_payload (strlen adv_payload);
          idx = 5 + strlen adv_payload
      in \<lparr>length_cp = of_nat idx, data_cp = d5\<rparr>)"

definition kTimeoutMs :: int where "kTimeoutMs = 1000"

text \<open>
  Lines 259-265, the request. Modelled from the spec: the opcode group \<^verbatim>\<open>OGF_LE_CTL\<close>
  and the opcode \<^verbatim>\<open>OCF_LE_SET_ADVERTISING_DATA\<close> are BlueZ constants, both 8.
\<close>

definition adv_data_request :: "le_set_advertising_data_cp \<Rightarrow> hci_request" where
  "adv_data_request cp =
     \<lparr>ogf = 8, ocf = 8, cparam = length_cp cp # data_cp cp, clen = 32, rlen = 1\<rparr>"

text \<open>Lines 235-274.\<close>

definition bt_set_le_advertising_payload :: "env \<Rightarrow> world \<Rightarrow> int \<Rightarrow> byte list \<Rightarrow> bt_error option \<times> world" where
  "bt_set_le_advertising_payload e w dd adv_payload =
     (if int (strlen adv_payload) > kMaxLEPayloadSize then (Some PayloadTooLarge, w)
      else
        let req = adv_data_request (encode_adv_data adv_payload);
            w1 = w @ [Sys_hci_send_req dd req kTimeoutMs] in
        if hci_send_req_result e w dd req kTimeoutMs < 0 then (Some (CommandFailed dd), w1)
        else (None, w1))"

section \<open>The LE meta-event parser\<close>

text \<open>
  The event is a byte buffer; the parser receives a pointer to its first byte and no
  length. A position is an offset from that pointer, an \<open>int\<close> because the walk's
  pointer can step backwards (see \<open>char_to_int\<close>). A read outside the buffer is
  undefined behaviour in C: \<open>None\<close> here, which the callers turn into \<open>Fault\<close>.
\<close>

definition read_byte :: "byte list \<Rightarrow> int \<Rightarrow> byte option" where
  "read_byte buf i = (if 0 \<le> i \<and> i < int (length buf) then Some (buf ! nat i) else None)"

definition read_bytes :: "byte list \<Rightarrow> int \<Rightarrow> nat \<Rightarrow> byte list option" where
  "read_bytes buf i n =
     (if 0 \<le> i \<and> i + int n \<le> int (length buf) then Some (take n (drop (nat i) buf)) else None)"

text \<open>
  The walk reads the buffer through a \<^verbatim>\<open>char*\<close> and widens each byte to \<^verbatim>\<open>int\<close>
  (lines 314 and 322). Whether \<^verbatim>\<open>char\<close> is signed is the platform's choice: it is
  signed under the Linux ABIs of x86 and x86-64 and unsigned under those of ARM. The
  model takes the choice as the parameter \<open>char_signed\<close>.
\<close>

definition char_to_int :: "bool \<Rightarrow> byte \<Rightarrow> int" where
  "char_to_int char_signed b = (if char_signed then sint b else uint b)"

definition kMaxNameLength :: int where "kMaxNameLength = 31"

text \<open>
  Line 330, \<^verbatim>\<open>memcpy(*remote_name, ptr, adv_data_length - 1)\<close>: the count is converted to
  \<^verbatim>\<open>size_t\<close>, so a negative count is a count beyond every object. The copy overwrites
  the first \<open>n\<close> bytes of the name buffer and leaves the others as they are.
\<close>

definition memcpy_name :: "byte list \<Rightarrow> byte list \<Rightarrow> int \<Rightarrow> int \<Rightarrow> byte list outcome" where
  "memcpy_name remote_name buf ptr n =
     (if n < 0 \<or> int (length remote_name) < n then Fault
      else (case read_bytes buf ptr (nat n) of
              None \<Rightarrow> Fault
            | Some src \<Rightarrow> Returns (src @ drop (nat n) remote_name)))"

text \<open>
  Lines 313-334, the loop over the advertising data; \<open>end_ptr\<close> is the source's
  \<^verbatim>\<open>end\<close>. One unit of fuel is one iteration.
\<close>

fun eir_walk :: "nat \<Rightarrow> bool \<Rightarrow> byte list \<Rightarrow> int \<Rightarrow> int \<Rightarrow> byte list \<Rightarrow> byte list outcome" where
  "eir_walk 0 char_signed buf end_ptr ptr remote_name = OutOfFuel"
| "eir_walk (Suc fuel) char_signed buf end_ptr ptr remote_name =
     (if ptr < end_ptr then
        (case read_byte buf ptr of
           None \<Rightarrow> Fault
         | Some l \<Rightarrow>
             let adv_data_length = char_to_int char_signed l; ptr1 = ptr + 1 in
             if adv_data_length = 0 then Returns remote_name
             else if ptr1 + adv_data_length > end_ptr then Returns remote_name
             else
               (case read_byte buf ptr1 of
                  None \<Rightarrow> Fault
                | Some t \<Rightarrow>
                    let adv_data_type = char_to_int char_signed t; ptr2 = ptr1 + 1 in
                    if adv_data_type = EIR_NAME_SHORT \<or> adv_data_type = EIR_NAME_COMPLETE then
                      if adv_data_length - 1 > kMaxNameLength then
                        eir_walk fuel char_signed buf end_ptr (ptr2 + (adv_data_length - 1)) remote_name
                      else
                        (case memcpy_name remote_name buf ptr2 (adv_data_length - 1) of
                           Returns name' \<Rightarrow>
                             eir_walk fuel char_signed buf end_ptr (ptr2 + (adv_data_length - 1)) name'
                         | Fault \<Rightarrow> Fault
                         | OutOfFuel \<Rightarrow> OutOfFuel)
                    else
                      eir_walk fuel char_signed buf end_ptr (ptr2 + (adv_data_length - 1)) remote_name))
      else Returns remote_name)"

text \<open>
  What the parser stored through \<^verbatim>\<open>remote_addr\<close>, \<^verbatim>\<open>remote_name\<close>, \<^verbatim>\<open>rssi\<close> and
  \<^verbatim>\<open>done\<close>: \<open>None\<close> where it did not write. The name is the whole 31-byte buffer.
\<close>

record parse_writes =
  remote_addr_written :: "string option"
  remote_name_written :: "byte list option"
  rssi_written :: "int option"
  done_written :: "int option"

definition only_done :: "int \<Rightarrow> parse_writes" where
  "only_done d =
     \<lparr>remote_addr_written = None, remote_name_written = None, rssi_written = None,
      done_written = Some d\<rparr>"

text \<open>
  Modelled from the spec: the layout of the event comes from the BlueZ header
  \<^verbatim>\<open>hci.h\<close>. \<^verbatim>\<open>HCI_EVENT_HDR_SIZE\<close> is 2; \<^verbatim>\<open>evt_le_meta_event\<close> is the subevent byte
  followed by its data; \<^verbatim>\<open>le_advertising_info\<close> is, packed, the event type, the address
  type, the six address bytes, the length byte and the data.
\<close>

definition HCI_EVENT_HDR_SIZE :: int where "HCI_EVENT_HDR_SIZE = 2"

definition read_bdaddr :: "byte list \<Rightarrow> int \<Rightarrow> bdaddr_t option" where
  "read_bdaddr buf i =
     (case read_bytes buf i 6 of
        Some [b0, b1, b2, b3, b4, b5] \<Rightarrow> Some (Bdaddr b0 b1 b2 b3 b4 b5)
      | _ \<Rightarrow> None)"

text \<open>Lines 280-336. \<open>fuel\<close> bounds the iterations of the walk.\<close>

definition bt_parse_le_meta_event :: "nat \<Rightarrow> bool \<Rightarrow> byte list \<Rightarrow> (bt_error option \<times> parse_writes) outcome" where
  "bt_parse_le_meta_event fuel char_signed data =
     (let meta_event = 1 + HCI_EVENT_HDR_SIZE in
      case read_byte data meta_event of
        None \<Rightarrow> Fault
      | Some subevent \<Rightarrow>
          if subevent = 0x01 then Returns (None, only_done 1)
          else if subevent \<noteq> 0x02 then
            (case asprintf Address_of_err (WrongEventType (uint subevent)) None of
               Returns err \<Rightarrow> Returns (err, only_done 0)
             | Fault \<Rightarrow> Fault
             | OutOfFuel \<Rightarrow> OutOfFuel)
          else
            let adv_info = meta_event + 1 + 1;
                adv_info_bdaddr = adv_info + 2;
                adv_info_length = adv_info + 8;
                adv_info_data = adv_info + 9 in
            (case read_bdaddr data adv_info_bdaddr of
               None \<Rightarrow> Fault
             | Some bdaddr \<Rightarrow>
                 (case read_byte data adv_info_length of
                    None \<Rightarrow> Fault
                  | Some len \<Rightarrow>
                      (case read_byte data (adv_info_data + uint len) of
                         None \<Rightarrow> Fault
                       | Some r \<Rightarrow>
                           (case eir_walk fuel char_signed data (adv_info_data + uint len)
                                   adv_info_data (replicate (nat kMaxNameLength) 0) of
                              Returns name \<Rightarrow>
                                Returns (None,
                                  \<lparr>remote_addr_written = Some (ba2str bdaddr),
                                   remote_name_written = Some name,
                                   rssi_written = Some (sint r),
                                   done_written = Some 0\<rparr>)
                            | Fault \<Rightarrow> Fault
                            | OutOfFuel \<Rightarrow> OutOfFuel)))))"

text \<open>The C string held by a buffer: its bytes before the first NUL.\<close>

definition c_string :: "byte list \<Rightarrow> byte list" where
  "c_string buf = takeWhile (\<lambda>b. b \<noteq> 0) buf"

section \<open>Reference notions for the properties\<close>

text \<open>
  These definitions are not translations of the source: they state, in the words of the
  specification, the format that the properties below compare the program with. The
  advertising data is a sequence of records, each a length byte (counting the type byte
  and the value), a type byte and the value.
\<close>

type_synonym eir_record = "byte \<times> byte list"

definition eir_bytes :: "eir_record \<Rightarrow> byte list" where
  "eir_bytes r = of_nat (length (snd r) + 1) # fst r # snd r"

definition eir_data :: "eir_record list \<Rightarrow> byte list" where
  "eir_data rs = concat (map eir_bytes rs)"

text \<open>A record whose value the walk takes for the name: a name type and at most 31 bytes.\<close>

definition is_name_record :: "eir_record \<Rightarrow> bool" where
  "is_name_record r = ((fst r = 0x08 \<or> fst r = 0x09) \<and> length (snd r) \<le> 31)"

text \<open>Writing \<open>v\<close> at offset 0 of a buffer and keeping the bytes behind it.\<close>

definition overlay :: "byte list \<Rightarrow> byte list \<Rightarrow> byte list" where
  "overlay name v = v @ drop (length v) name"

definition names_overlaid :: "byte list \<Rightarrow> eir_record list \<Rightarrow> byte list" where
  "names_overlaid name rs =
     foldl (\<lambda>nm r. if is_name_record r then overlay nm (snd r) else nm) name rs"

text \<open>
  The bytes of an LE advertising report event that carries one report: the packet type
  04, the event header (event code 3E and a parameter length), the subevent 02, the
  number of reports, and the advertising-info record followed by the RSSI byte.
\<close>

fun adv_report_event :: "byte \<Rightarrow> byte \<Rightarrow> byte \<Rightarrow> byte \<Rightarrow> bdaddr_t \<Rightarrow> byte list \<Rightarrow> byte \<Rightarrow> byte list" where
  "adv_report_event plen num_reports evt_type bdaddr_type (Bdaddr b0 b1 b2 b3 b4 b5) eir rssi =
     [0x04, 0x3E, plen, 0x02, num_reports, evt_type, bdaddr_type, b0, b1, b2, b3, b4, b5,
      of_nat (length eir)] @ eir @ [rssi]"

text \<open>
  The bind calls on the channels 1 to \<open>k\<close> of one address, in ascending order, and the
  statement that the attempt on channel \<open>c\<close>, made after the attempts on the channels
  below it, is refused by the kernel.
\<close>

definition bind_attempts :: "int \<Rightarrow> string \<Rightarrow> int \<Rightarrow> syscall list" where
  "bind_attempts sock a k = map (\<lambda>c. Sys_bind sock a (of_int c)) [1..k]"

definition bind_fails :: "env \<Rightarrow> world \<Rightarrow> int \<Rightarrow> string \<Rightarrow> int \<Rightarrow> bool" where
  "bind_fails e w sock a c =
     (bind_result e (w @ bind_attempts sock a (c - 1)) sock a (of_int c) < 0)"

section \<open>Concrete environments\<close>

text \<open>An environment in which every call succeeds, for the examples below.\<close>

definition env_all_succeed :: env where
  "env_all_succeed =
     \<lparr>socket_result = (\<lambda>w. 3),
      getdevinfo_result = (\<lambda>w sock dev_id. Some ''hci0''),
      hci_open_dev_result = (\<lambda>w dev_id. 4),
      hci_devba_result = (\<lambda>w dev_id. Bdaddr 0x01 0x02 0x03 0x04 0x05 0x06),
      hci_close_dev_result = (\<lambda>w dd. 0),
      bind_result = (\<lambda>w sock a c. 0),
      hci_send_req_result = (\<lambda>w dd req t. 0)\<rparr>"

text \<open>
  An environment with two controllers, \<^verbatim>\<open>hci0\<close> at the address \<open>addr_A\<close> and \<^verbatim>\<open>hci1\<close> at
  \<open>addr_B\<close>; the device ids from 2 on do not exist. The kernel accepts a bind on the
  address \<open>a\<close> and the channel \<open>c\<close> exactly when \<open>ok a c\<close>.
\<close>

definition addr_A :: string where "addr_A = ''00:00:00:00:00:0A''"
definition addr_B :: string where "addr_B = ''00:00:00:00:00:0B''"

definition env_two_devices :: "(string \<Rightarrow> byte \<Rightarrow> bool) \<Rightarrow> env" where
  "env_two_devices ok =
     \<lparr>socket_result = (\<lambda>w. 3),
      getdevinfo_result = (\<lambda>w sock dev_id. if dev_id = 0 then Some ''hci0'' else if dev_id = 1 then Some ''hci1'' else None),
      hci_open_dev_result = (\<lambda>w dev_id. 4),
      hci_devba_result = (\<lambda>w dev_id. if dev_id = 0 then Bdaddr 0x0A 0 0 0 0 0 else Bdaddr 0x0B 0 0 0 0 0),
      hci_close_dev_result = (\<lambda>w dd. 0),
      bind_result = (\<lambda>w sock a c. if ok a c then 0 else - 1),
      hci_send_req_result = (\<lambda>w dd req t. 0)\<rparr>"

section \<open>Properties\<close>

subsection \<open>The payload encoder\<close>

lemma drop5: "drop (5 + n) (a # b # c # d # e # xs) = drop n xs"
  by (simp add: numeral_eq_Suc)

lemma encode_adv_data_data:
  assumes "length p \<le> 26"
  shows "data_cp (encode_adv_data p) =
           [2, 1, 6, of_nat (length p + 1), 9] @ p @ replicate (26 - length p) 0"
proof -
  have r: "replicate 31 (0::byte) = [0, 0, 0, 0, 0] @ replicate 26 0"
    by (simp add: numeral_eq_Suc)
  show ?thesis
    using assms
    unfolding encode_adv_data_def memset_adv_data_cp_def memcpy_at_def strlen_def
      EIR_FLAGS_def EIR_NAME_COMPLETE_def Let_def
    by (simp add: r drop5)
qed

lemma take5: "take (5 + n) (a # b # c # d # e # xs) = a # b # c # d # e # take n xs"
  by (simp add: numeral_eq_Suc)

lemma encode_adv_data_take:
  assumes "length p \<le> 26"
  shows "take (5 + length p) (data_cp (encode_adv_data p)) =
           [2, 1, 6, of_nat (length p + 1), 9] @ p"
  using assms by (simp add: encode_adv_data_data take5)

lemma unat_of_nat_byte: "k < 256 \<Longrightarrow> unat (of_nat k :: byte) = k"
  by (simp add: unat_of_nat)

lemma encode_adv_data_length:
  assumes "length p \<le> 26"
  shows "unat (length_cp (encode_adv_data p)) = 5 + length p"
proof -
  have "5 + length p < 256" using assms by simp
  then have "unat (of_nat (5 + length p) :: byte) = 5 + length p"
    by (rule unat_of_nat_byte)
  then show ?thesis
    by (simp add: encode_adv_data_def strlen_def Let_def del: of_nat_add)
qed

text \<open>
  C1. A payload of more than 26 bytes is refused with \<open>PayloadTooLarge\<close> and nothing is
  sent to the controller (the log of calls is unchanged). Otherwise the payload is not
  refused, and the command parameter that is sent holds a length field equal to
  \<open>5 + length p\<close>, which is at most 31, and that many data bytes: 02 01 06, then
  \<open>length p + 1\<close>, then 09, then the payload; the rest of the 31-byte data field is zero.
\<close>

theorem bt_set_le_advertising_payload_encodes:
  "(26 < length p \<longrightarrow> bt_set_le_advertising_payload e w dd p = (Some PayloadTooLarge, w)) \<and>
   (length p \<le> 26 \<longrightarrow>
      fst (bt_set_le_advertising_payload e w dd p) \<noteq> Some PayloadTooLarge \<and>
      snd (bt_set_le_advertising_payload e w dd p) =
        w @ [Sys_hci_send_req dd (adv_data_request (encode_adv_data p)) kTimeoutMs] \<and>
      cparam (adv_data_request (encode_adv_data p)) =
        length_cp (encode_adv_data p) # data_cp (encode_adv_data p) \<and>
      unat (length_cp (encode_adv_data p)) = 5 + length p \<and>
      unat (length_cp (encode_adv_data p)) \<le> 31 \<and>
      take (5 + length p) (data_cp (encode_adv_data p)) =
        [0x02, 0x01, 0x06, of_nat (length p + 1), 0x09] @ p \<and>
      drop (5 + length p) (data_cp (encode_adv_data p)) = replicate (26 - length p) 0)"
proof (intro conjI impI)
  assume "26 < length p"
  then show "bt_set_le_advertising_payload e w dd p = (Some PayloadTooLarge, w)"
    by (simp add: bt_set_le_advertising_payload_def strlen_def kMaxLEPayloadSize_def)
next
  assume "length p \<le> 26"
  then show "fst (bt_set_le_advertising_payload e w dd p) \<noteq> Some PayloadTooLarge"
    by (simp add: bt_set_le_advertising_payload_def strlen_def kMaxLEPayloadSize_def Let_def)
next
  assume "length p \<le> 26"
  then show "snd (bt_set_le_advertising_payload e w dd p) =
      w @ [Sys_hci_send_req dd (adv_data_request (encode_adv_data p)) kTimeoutMs]"
    by (simp add: bt_set_le_advertising_payload_def strlen_def kMaxLEPayloadSize_def Let_def)
next
  show "cparam (adv_data_request (encode_adv_data p)) =
      length_cp (encode_adv_data p) # data_cp (encode_adv_data p)"
    by (simp add: adv_data_request_def)
next
  assume "length p \<le> 26"
  then show "unat (length_cp (encode_adv_data p)) = 5 + length p"
    by (rule encode_adv_data_length)
next
  assume "length p \<le> 26"
  then show "unat (length_cp (encode_adv_data p)) \<le> 31"
    by (simp add: encode_adv_data_length)
next
  assume "length p \<le> 26"
  then show "take (5 + length p) (data_cp (encode_adv_data p)) =
      [0x02, 0x01, 0x06, of_nat (length p + 1), 0x09] @ p"
    by (simp add: encode_adv_data_take)
next
  assume "length p \<le> 26"
  then show "drop (5 + length p) (data_cp (encode_adv_data p)) = replicate (26 - length p) 0"
    by (simp add: encode_adv_data_data drop5)
qed

text \<open>
  The two scenarios of the specification: the payload "Alpha" gives the ten bytes
  02 01 06 06 09 41 6C 70 68 61, and a payload of 27 bytes is refused.
\<close>

theorem bt_set_le_advertising_payload_encodes_witness:
  "bt_set_le_advertising_payload env_all_succeed [] 4 (replicate 27 0x41) =
     (Some PayloadTooLarge, []) \<and>
   unat (length_cp (encode_adv_data (map of_char ''Alpha''))) = 10 \<and>
   take 10 (data_cp (encode_adv_data (map of_char ''Alpha''))) =
     [0x02, 0x01, 0x06, 0x06, 0x09, 0x41, 0x6C, 0x70, 0x68, 0x61] \<and>
   snd (bt_set_le_advertising_payload env_all_succeed [] 4 (map of_char ''Alpha'')) =
     [Sys_hci_send_req 4 (adv_data_request (encode_adv_data (map of_char ''Alpha''))) kTimeoutMs]"
  using bt_set_le_advertising_payload_encodes
      [of "replicate 27 0x41" env_all_succeed "[]" 4]
    bt_set_le_advertising_payload_encodes
      [of "map of_char ''Alpha''" env_all_succeed "[]" 4]
  by simp

subsection \<open>Opening a controller\<close>

lemma bt_open_device_negative: "dev_id < 0 \<Longrightarrow> bt_open_device e w dev_id = Fault"
  by (simp add: bt_open_device_def asprintf_def)

text \<open>
  C8 (the source departs from the specification here). For the device id -1 the call
  does not return an \<open>InvalidArgument\<close> error: line 46 hands \<^verbatim>\<open>asprintf\<close> the null
  pointer held by \<^verbatim>\<open>err\<close> where the address of \<^verbatim>\<open>err\<close> is meant, so the message is
  written through a null pointer and \<^verbatim>\<open>err\<close> is never assigned. In whatever environment
  and after whatever history, the call ends in \<open>Fault\<close>; it is not a return of an error.
\<close>

theorem bt_open_device_minus_one:
  "bt_open_device e w (- 1) = Fault \<and>
   bt_open_device e w (- 1) \<noteq> Returns (Some InvalidArgument, w, no_writes)"
  by (simp add: bt_open_device_negative)

subsection \<open>The walk over the advertising data\<close>

lemma uint_small: "n < 256 \<Longrightarrow> uint (of_nat n :: byte) = int n"
  by (simp add: uint_nat unat_of_nat)

lemma sint_small: "n < 128 \<Longrightarrow> sint (of_nat n :: byte) = int n"
proof -
  assume a: "n < 128"
  have "sint (of_nat n :: byte) = signed_take_bit 7 (int n)"
    by (simp add: signed_of_nat)
  also have "\<dots> = int n"
    using a by (intro signed_take_bit_int_eq_self) simp_all
  finally show ?thesis by simp
qed

lemma char_to_int_small: "n < 128 \<Longrightarrow> char_to_int cs (of_nat n) = int n"
  by (simp add: char_to_int_def uint_small sint_small)

lemma char_to_int_eq_8: "char_to_int cs t = 8 \<longleftrightarrow> t = 8"
proof
  assume "t = 8" then show "char_to_int cs t = 8" by (simp add: char_to_int_def)
next
  assume a: "char_to_int cs t = 8"
  show "t = 8"
  proof (cases cs)
    case True
    with a have "sint t = sint (8 :: byte)" by (simp add: char_to_int_def)
    then show ?thesis by (rule signed_word_eqI)
  next
    case False
    with a have "uint t = uint (8 :: byte)" by (simp add: char_to_int_def)
    then show ?thesis by (simp only: word_uint_eq_iff)
  qed
qed

lemma char_to_int_eq_9: "char_to_int cs t = 9 \<longleftrightarrow> t = 9"
proof
  assume "t = 9" then show "char_to_int cs t = 9" by (simp add: char_to_int_def)
next
  assume a: "char_to_int cs t = 9"
  show "t = 9"
  proof (cases cs)
    case True
    with a have "sint t = sint (9 :: byte)" by (simp add: char_to_int_def)
    then show ?thesis by (rule signed_word_eqI)
  next
    case False
    with a have "uint t = uint (9 :: byte)" by (simp add: char_to_int_def)
    then show ?thesis by (simp only: word_uint_eq_iff)
  qed
qed

lemma read_byte_append0: "read_byte (pre @ x # rest) (int (length pre)) = Some x"
  by (simp add: read_byte_def)

lemma read_byte_append1: "read_byte (pre @ a # x # rest) (int (length pre) + 1) = Some x"
  by (simp add: read_byte_def nat_add_distrib nth_append)

lemma read_bytes_append2:
  "read_bytes (pre @ a # b # v @ rest) (int (length pre) + 2) (length v) = Some v"
  by (simp add: read_bytes_def nat_add_distrib)

lemma length_eir_bytes: "length (eir_bytes r) = length (snd r) + 2"
  by (simp add: eir_bytes_def)

lemma eir_data_Cons: "eir_data (r # rs) = eir_bytes r @ eir_data rs"
  by (simp add: eir_data_def)

lemma names_overlaid_Cons:
  "names_overlaid name (r # rs) =
     names_overlaid (if is_name_record r then overlay name (snd r) else name) rs"
  by (simp add: names_overlaid_def)

lemma length_overlay: "length v \<le> length name \<Longrightarrow> length (overlay name v) = length name"
  by (simp add: overlay_def)


lemma eir_walk_step:
  assumes "read_byte buf ptr = Some l"
    and "char_to_int cs l = n + 1"
    and "0 \<le> n"
    and "ptr + 2 + n \<le> end_ptr"
    and "read_byte buf (ptr + 1) = Some t"
    and "(t = 8 \<or> t = 9) \<and> n \<le> 31 \<Longrightarrow> memcpy_name name buf (ptr + 2) n = Returns name'"
  shows "eir_walk (Suc fuel) cs buf end_ptr ptr name =
         eir_walk fuel cs buf end_ptr (ptr + 2 + n)
           (if (t = 8 \<or> t = 9) \<and> n \<le> 31 then name' else name)"
proof (cases "(t = 8 \<or> t = 9) \<and> n \<le> 31")
  case True
  then have "memcpy_name name buf (ptr + 2) n = Returns name'"
    by (rule assms(6))
  with True assms(1-5) show ?thesis
    by (simp add: Let_def EIR_NAME_SHORT_def EIR_NAME_COMPLETE_def kMaxNameLength_def
        char_to_int_eq_8 char_to_int_eq_9 algebra_simps)
next
  case False
  with assms(1-5) show ?thesis
    by (auto simp add: Let_def EIR_NAME_SHORT_def EIR_NAME_COMPLETE_def kMaxNameLength_def
        char_to_int_eq_8 char_to_int_eq_9 algebra_simps)
qed

lemma eir_walk_record:
  assumes len: "length (snd r) < 127"
    and nm: "length name = 31"
    and d: "0 \<le> d"
  shows "eir_walk (Suc fuel) cs (pre @ eir_bytes r @ rest)
           (int (length (pre @ eir_bytes r)) + d) (int (length pre)) name =
         eir_walk fuel cs (pre @ eir_bytes r @ rest)
           (int (length (pre @ eir_bytes r)) + d)
           (int (length (pre @ eir_bytes r)))
           (if is_name_record r then overlay name (snd r) else name)"
proof -
  obtain t v where r: "r = (t, v)" by (cases r)
  define buf where "buf = pre @ eir_bytes r @ rest"
  define p where "p = int (length pre)"
  define n where "n = int (length v)"
  have l: "char_to_int cs (of_nat (length v + 1)) = n + 1"
    using len r char_to_int_small [of "length v + 1" cs] by (simp add: n_def)
  have b: "buf = pre @ of_nat (length v + 1) # t # v @ rest"
    by (simp add: eir_bytes_def r buf_def)
  have r0: "read_byte buf p = Some (of_nat (length v + 1))"
    unfolding b p_def by (rule read_byte_append0)
  have r1: "read_byte buf (p + 1) = Some t"
    unfolding b p_def by (rule read_byte_append1)
  have r2: "read_bytes buf (p + 2) (length v) = Some v"
    unfolding b p_def by (rule read_bytes_append2)
  have m: "memcpy_name name buf (p + 2) n = Returns (overlay name v)" if "n \<le> 31"
    using r2 that by (simp add: memcpy_name_def nm overlay_def n_def)
  have e: "int (length (pre @ eir_bytes r)) = p + 2 + n"
    by (simp add: p_def n_def r eir_bytes_def)
  have "eir_walk (Suc fuel) cs buf (p + 2 + n + d) p name =
         eir_walk fuel cs buf (p + 2 + n + d) (p + 2 + n)
           (if (t = 8 \<or> t = 9) \<and> n \<le> 31 then overlay name v else name)"
    by (rule eir_walk_step [OF r0 l _ _ r1 m]) (use d in \<open>simp_all add: n_def\<close>)
  moreover have "((t = 8 \<or> t = 9) \<and> n \<le> 31) = is_name_record r"
    by (simp add: is_name_record_def r n_def)
  ultimately show ?thesis
    unfolding e by (simp add: buf_def r p_def del: eir_walk.simps)
qed

lemma eir_walk_records:
  assumes "\<forall>r \<in> set rs. length (snd r) < 127"
    and "length name = 31"
    and "length rs < fuel"
  shows "eir_walk fuel cs (pre @ eir_data rs @ post)
           (int (length pre) + int (length (eir_data rs))) (int (length pre)) name =
         Returns (names_overlaid name rs)"
  using assms
proof (induction rs arbitrary: fuel pre name)
  case Nil
  then obtain f where "fuel = Suc f" by (cases fuel) auto
  then show ?case by (simp add: eir_data_def names_overlaid_def)
next
  case (Cons r rs)
  from Cons.prems obtain f where f: "fuel = Suc f" "length rs < f" by (cases fuel) auto
  let ?name = "if is_name_record r then overlay name (snd r) else name"
  have ln: "length ?name = 31"
    using Cons.prems(2) by (simp add: is_name_record_def length_overlay)
  have "eir_walk (Suc f) cs (pre @ eir_bytes r @ eir_data rs @ post)
           (int (length (pre @ eir_bytes r)) + int (length (eir_data rs))) (int (length pre)) name =
         eir_walk f cs (pre @ eir_bytes r @ eir_data rs @ post)
           (int (length (pre @ eir_bytes r)) + int (length (eir_data rs)))
           (int (length (pre @ eir_bytes r))) ?name"
    using Cons.prems by (intro eir_walk_record) simp_all
  also have "\<dots> = Returns (names_overlaid ?name rs)"
    using Cons.IH [of ?name f "pre @ eir_bytes r"] Cons.prems(1) ln f(2) by simp
  finally show ?case
    by (simp add: f eir_data_Cons names_overlaid_Cons add.assoc del: eir_walk.simps)
qed

declare eir_walk.simps [simp del]

lemma bt_parse_le_meta_event_report:
  assumes L: "length (eir_data rs) \<le> 255"
    and wf: "\<forall>r \<in> set rs. length (snd r) < 127"
    and fuel: "length rs < fuel"
  shows "bt_parse_le_meta_event fuel cs
           (adv_report_event plen num_reports evt_type bdaddr_type bdaddr (eir_data rs) rssi) =
         Returns (None,
           \<lparr>remote_addr_written = Some (ba2str bdaddr),
            remote_name_written = Some (names_overlaid (replicate 31 0) rs),
            rssi_written = Some (sint rssi),
            done_written = Some 0\<rparr>)"
proof -
  obtain b0 b1 b2 b3 b4 b5 where bd: "bdaddr = Bdaddr b0 b1 b2 b3 b4 b5"
    by (cases bdaddr)
  define eir where "eir = eir_data rs"
  define hdr where "hdr = [0x04, 0x3E, plen, 0x02, num_reports, evt_type, bdaddr_type,
    b0, b1, b2, b3, b4, b5, of_nat (length eir) :: byte]"
  define data where "data = hdr @ eir @ [rssi]"
  have data_eq: "adv_report_event plen num_reports evt_type bdaddr_type bdaddr eir rssi = data"
    by (simp add: bd data_def hdr_def)
  have lh: "length hdr = 14" by (simp add: hdr_def)
  have sub: "read_byte data 3 = Some 0x02"
    by (simp add: data_def hdr_def read_byte_def)
  have adr: "read_bdaddr data 7 = Some bdaddr"
    by (simp add: data_def hdr_def read_bdaddr_def read_bytes_def bd)
  have len: "read_byte data 13 = Some (of_nat (length eir))"
    by (simp add: data_def hdr_def read_byte_def)
  have ul: "uint (of_nat (length eir) :: byte) = int (length eir)"
    using L by (simp add: uint_small eir_def)
  have rs: "read_byte data (14 + int (length eir)) = Some rssi"
    using read_byte_append0 [of "hdr @ eir" rssi "[]"] by (simp add: data_def lh)
  have walk: "eir_walk fuel cs data (14 + int (length eir)) 14 (replicate 31 0) =
      Returns (names_overlaid (replicate 31 0) rs)"
    using eir_walk_records [OF wf _ fuel, of "replicate 31 0" cs hdr "[rssi]"]
    by (simp add: data_def lh eir_def)
  show ?thesis
    unfolding eir_def [symmetric] data_eq
    by (simp add: bt_parse_le_meta_event_def HCI_EVENT_HDR_SIZE_def sub adr len ul rs walk
        kMaxNameLength_def)
qed

lemma names_overlaid_snoc:
  "names_overlaid name (rs @ [r]) =
     (if is_name_record r then overlay (names_overlaid name rs) (snd r) else names_overlaid name rs)"
  by (simp add: names_overlaid_def)

lemma length_names_overlaid: "length name = 31 \<Longrightarrow> length (names_overlaid name rs) = 31"
  by (induction rs rule: rev_induct)
    (simp_all add: names_overlaid_snoc length_overlay is_name_record_def, simp add: names_overlaid_def)

lemma nth_overlay:
  "length v \<le> length name \<Longrightarrow> i < length name \<Longrightarrow>
   overlay name v ! i = (if i < length v then v ! i else name ! i)"
  by (simp add: overlay_def nth_append)

lemma nth_names_overlaid:
  assumes "length name = 31" and "i < 31"
  shows "names_overlaid name rs ! i =
     (case find (\<lambda>r. is_name_record r \<and> i < length (snd r)) (rev rs) of
        None \<Rightarrow> name ! i
      | Some r \<Rightarrow> snd r ! i)"
proof (induction rs rule: rev_induct)
  case Nil
  show ?case by (simp add: names_overlaid_def)
next
  case (snoc r rs)
  have l: "length (names_overlaid name rs) = 31"
    using assms(1) by (rule length_names_overlaid)
  show ?case
  proof (cases "is_name_record r")
    case True
    then have "length (snd r) \<le> length (names_overlaid name rs)"
      by (simp add: l is_name_record_def)
    then show ?thesis
      using True snoc assms(2) l by (simp add: names_overlaid_snoc nth_overlay)
  next
    case False
    then show ?thesis using snoc by (simp add: names_overlaid_snoc)
  qed
qed

lemma encoded_is_eir_data:
  assumes "length p \<le> 26"
  shows "take (unat (length_cp (encode_adv_data p))) (data_cp (encode_adv_data p)) =
         eir_data [(0x01, [0x06]), (0x09, p)]"
  using assms
  by (simp add: encode_adv_data_length encode_adv_data_take eir_data_def eir_bytes_def)

lemma c_string_padded: "0 \<notin> set p \<Longrightarrow> c_string (p @ replicate k 0) = p"
  by (cases k) (auto simp add: c_string_def takeWhile_append)

subsection \<open>The parser on whole events\<close>

text \<open>
  C4. On the buffer of scenario S3 (packet type 04, event header 3E and any parameter
  length, subevent 02, one report, address bytes 01 02 03 04 05 06, advertising data of
  length 8 holding the one record 07 09 "Sensor", RSSI byte C0) the parser returns
  success, whatever the signedness of \<^verbatim>\<open>char\<close> and for every budget of at least two
  iterations. It stores the address "06:05:04:03:02:01", a name buffer that reads as the
  C string "Sensor", the RSSI -64 and \<^verbatim>\<open>done\<close> = 0.
\<close>

theorem bt_parse_le_meta_event_scenario_S3:
  "bt_parse_le_meta_event (Suc (Suc fuel)) char_signed
     ([0x04, 0x3E, xx, 0x02, 0x01, 0x00, 0x00, 0x01, 0x02, 0x03, 0x04, 0x05, 0x06, 0x08, 0x07, 0x09]
        @ map of_char ''Sensor'' @ [0xC0]) =
   Returns (None,
     \<lparr>remote_addr_written = Some ''06:05:04:03:02:01'',
      remote_name_written = Some (map of_char ''Sensor'' @ replicate 25 0),
      rssi_written = Some (- 64),
      done_written = Some 0\<rparr>) \<and>
   c_string (map of_char ''Sensor'' @ replicate 25 0) = map of_char ''Sensor''"
  by (simp add: bt_parse_le_meta_event_def HCI_EVENT_HDR_SIZE_def read_byte_def read_bdaddr_def
      read_bytes_def kMaxNameLength_def eir_walk.simps char_to_int_def EIR_NAME_SHORT_def
      EIR_NAME_COMPLETE_def memcpy_name_def hex2_def hex_digit_def Let_def c_string_def)

lemma names_overlaid_encoded:
  assumes "length p \<le> 26"
  shows "names_overlaid (replicate 31 0) [(0x01, [0x06]), (0x09, p)] = p @ replicate (31 - length p) 0"
  using assms by (simp add: names_overlaid_def is_name_record_def overlay_def)

text \<open>
  C5. Encoding a payload \<open>p\<close> of at most 26 bytes and parsing an advertising report
  whose advertising data are the encoded bytes, with the length byte the encoder
  recorded, gives a name buffer holding \<open>p\<close> padded with zeros; as \<open>p\<close> is a C string
  and so holds no NUL byte, the buffer reads as the C string \<open>p\<close>. The other fields of
  the event are arbitrary.
\<close>

theorem eir_encode_parse_round_trip:
  assumes "length p \<le> 26"
  shows "bt_parse_le_meta_event (Suc (Suc (Suc fuel))) char_signed
       (adv_report_event plen num_reports evt_type bdaddr_type bdaddr
          (take (unat (length_cp (encode_adv_data p))) (data_cp (encode_adv_data p))) rssi) =
     Returns (None,
       \<lparr>remote_addr_written = Some (ba2str bdaddr),
        remote_name_written = Some (p @ replicate (31 - length p) 0),
        rssi_written = Some (sint rssi),
        done_written = Some 0\<rparr>) \<and>
     (0 \<notin> set p \<longrightarrow> c_string (p @ replicate (31 - length p) 0) = p)"
proof -
  have L: "length (eir_data [(0x01, [0x06]), (0x09, p)]) \<le> 255"
    using assms by (simp add: eir_data_def eir_bytes_def)
  have wf: "\<forall>r \<in> set [(0x01, [0x06 :: byte]), (0x09 :: byte, p)]. length (snd r) < 127"
    using assms by simp
  have "bt_parse_le_meta_event (Suc (Suc (Suc fuel))) char_signed
       (adv_report_event plen num_reports evt_type bdaddr_type bdaddr
          (eir_data [(0x01, [0x06]), (0x09, p)]) rssi) =
     Returns (None,
       \<lparr>remote_addr_written = Some (ba2str bdaddr),
        remote_name_written = Some (names_overlaid (replicate 31 0) [(0x01, [0x06]), (0x09, p)]),
        rssi_written = Some (sint rssi),
        done_written = Some 0\<rparr>)"
    by (rule bt_parse_le_meta_event_report [OF L wf]) simp
  then have "bt_parse_le_meta_event (Suc (Suc (Suc fuel))) char_signed
       (adv_report_event plen num_reports evt_type bdaddr_type bdaddr
          (take (unat (length_cp (encode_adv_data p))) (data_cp (encode_adv_data p))) rssi) =
     Returns (None,
       \<lparr>remote_addr_written = Some (ba2str bdaddr),
        remote_name_written = Some (p @ replicate (31 - length p) 0),
        rssi_written = Some (sint rssi),
        done_written = Some 0\<rparr>)"
    using assms by (simp only: encoded_is_eir_data names_overlaid_encoded)
  moreover have "0 \<notin> set p \<longrightarrow> c_string (p @ replicate (31 - length p) 0) = p"
    by (simp add: c_string_padded)
  ultimately show ?thesis
    by (rule conjI)
qed

theorem eir_encode_parse_round_trip_witness:
  "bt_parse_le_meta_event (Suc (Suc (Suc 0))) True
       (adv_report_event 0x15 0x01 0x00 0x00 (Bdaddr 0x01 0x02 0x03 0x04 0x05 0x06)
          (take (unat (length_cp (encode_adv_data (map of_char ''Alpha''))))
             (data_cp (encode_adv_data (map of_char ''Alpha'')))) 0xC0) =
     Returns (None,
       \<lparr>remote_addr_written = Some ''06:05:04:03:02:01'',
        remote_name_written = Some (map of_char ''Alpha'' @ replicate 26 0),
        rssi_written = Some (- 64),
        done_written = Some 0\<rparr>) \<and>
     c_string (map of_char ''Alpha'' @ replicate 26 0) = map of_char ''Alpha''"
proof -
  let ?p = "map of_char ''Alpha'' :: byte list"
  have 1: "length ?p \<le> 26" by simp
  have 2: "0 \<notin> set ?p" by simp
  have 3: "ba2str (Bdaddr 0x01 0x02 0x03 0x04 0x05 0x06) = ''06:05:04:03:02:01''"
    by (simp add: hex2_def hex_digit_def)
  have 4: "sint (0xC0 :: byte) = - 64" by simp
  have 5: "31 - length ?p = 26" by simp
  show ?thesis
    using eir_encode_parse_round_trip [OF 1, where fuel = 0 and char_signed = True
        and plen = "0x15" and num_reports = "0x01" and evt_type = "0x00"
        and bdaddr_type = "0x00" and bdaddr = "Bdaddr 0x01 0x02 0x03 0x04 0x05 0x06"
        and rssi = "0xC0"] 2
    unfolding 3 4 5 by simp
qed


text \<open>
  C10. The name buffer starts as 31 zero bytes, and the walk writes the value of every
  record of type 08 or 09 with at most 31 value bytes at offset 0 of the buffer, leaving
  the bytes behind the value as they were (\<open>names_overlaid\<close> folds \<open>overlay\<close> over the
  records, from the zero buffer). So byte \<open>i\<close> of the name that is returned is byte
  \<open>i\<close> of the last name record that has more than \<open>i\<close> value bytes, and zero when there
  is none: the last name record's bytes, followed by what an earlier, longer name
  record left behind. The statement is for advertising data made of complete records
  whose length bytes are at most 127, so that they read the same under either
  signedness of \<^verbatim>\<open>char\<close>.
\<close>

theorem eir_walk_overlays_name_records:
  assumes "length (eir_data rs) \<le> 255"
    and "\<forall>r \<in> set rs. length (snd r) < 127"
    and "length rs < fuel"
  shows "bt_parse_le_meta_event fuel char_signed
           (adv_report_event plen num_reports evt_type bdaddr_type bdaddr (eir_data rs) rssi) =
         Returns (None,
           \<lparr>remote_addr_written = Some (ba2str bdaddr),
            remote_name_written = Some (names_overlaid (replicate 31 0) rs),
            rssi_written = Some (sint rssi),
            done_written = Some 0\<rparr>) \<and>
         length (names_overlaid (replicate 31 0) rs) = 31 \<and>
         (\<forall>i < 31. names_overlaid (replicate 31 0) rs ! i =
            (case find (\<lambda>r. is_name_record r \<and> i < length (snd r)) (rev rs) of
               None \<Rightarrow> 0
             | Some r \<Rightarrow> snd r ! i))"
proof (intro conjI allI impI)
  show "bt_parse_le_meta_event fuel char_signed
           (adv_report_event plen num_reports evt_type bdaddr_type bdaddr (eir_data rs) rssi) =
         Returns (None,
           \<lparr>remote_addr_written = Some (ba2str bdaddr),
            remote_name_written = Some (names_overlaid (replicate 31 0) rs),
            rssi_written = Some (sint rssi),
            done_written = Some 0\<rparr>)"
    using assms by (rule bt_parse_le_meta_event_report)
next
  show "length (names_overlaid (replicate 31 0) rs) = 31"
    by (rule length_names_overlaid) simp
next
  fix i :: nat
  assume i: "i < 31"
  have "names_overlaid (replicate 31 0) rs ! i =
      (case find (\<lambda>r. is_name_record r \<and> i < length (snd r)) (rev rs) of
         None \<Rightarrow> replicate 31 0 ! i
       | Some r \<Rightarrow> snd r ! i)"
    by (rule nth_names_overlaid) (simp_all add: i)
  then show "names_overlaid (replicate 31 0) rs ! i =
      (case find (\<lambda>r. is_name_record r \<and> i < length (snd r)) (rev rs) of
         None \<Rightarrow> 0
       | Some r \<Rightarrow> snd r ! i)"
    using i by (simp only: nth_replicate)
qed

text \<open>Two name records, "Sensor" and then the shorter "Abc": the name read back is "Abcsor".\<close>

theorem eir_walk_overlays_name_records_witness:
  "bt_parse_le_meta_event (Suc (Suc (Suc (Suc 0)))) True
     (adv_report_event 0x18 0x01 0x00 0x00 (Bdaddr 0x01 0x02 0x03 0x04 0x05 0x06)
        (eir_data [(0x09, map of_char ''Sensor''), (0x01, [0x06]), (0x08, map of_char ''Abc'')])
        0xC0) =
   Returns (None,
     \<lparr>remote_addr_written = Some ''06:05:04:03:02:01'',
      remote_name_written = Some (map of_char ''Abcsor'' @ replicate 25 0),
      rssi_written = Some (- 64),
      done_written = Some 0\<rparr>) \<and>
   c_string (map of_char ''Abcsor'' @ replicate 25 0) = map of_char ''Abcsor''"
proof -
  let ?rs = "[(0x09, map of_char ''Sensor''), (0x01, [0x06]), (0x08, map of_char ''Abc'')] :: eir_record list"
  have 1: "length (eir_data ?rs) \<le> 255"
    by (simp add: eir_data_def eir_bytes_def)
  have 2: "\<forall>r \<in> set ?rs. length (snd r) < 127"
    by simp
  have 3: "length ?rs < Suc (Suc (Suc (Suc 0)))"
    by simp
  have 4: "names_overlaid (replicate 31 0) ?rs = map of_char ''Abcsor'' @ replicate 25 0"
    by (simp add: names_overlaid_def is_name_record_def overlay_def)
  have 5: "ba2str (Bdaddr 0x01 0x02 0x03 0x04 0x05 0x06) = ''06:05:04:03:02:01''"
    by (simp add: hex2_def hex_digit_def)
  have 6: "sint (0xC0 :: byte) = - 64"
    by simp
  have 7: "c_string (map of_char ''Abcsor'' @ replicate 25 0) = map of_char ''Abcsor''"
    by (simp add: c_string_def)
  show ?thesis
    using eir_walk_overlays_name_records [OF 1 2 3, where char_signed = True
        and plen = "0x18" and num_reports = "0x01" and evt_type = "0x00" and bdaddr_type = "0x00"
        and bdaddr = "Bdaddr 0x01 0x02 0x03 0x04 0x05 0x06" and rssi = "0xC0", THEN conjunct1] 7
    unfolding 4 5 6 by (rule conjI)
qed

text \<open>
  C3 (the source departs from the specification here). A report whose advertising
  data hold a record with the length byte FF and the type 09 is not decoded where
  \<^verbatim>\<open>char\<close> is signed: line 314 reads the length as -1, the test of line 318 lets it
  pass, the test of line 326 compares -2 with 31, and line 330 copies with the count
  \<^verbatim>\<open>(size_t) -2\<close>. The subevent is 02 and every byte the parser reads before the copy
  lies inside the buffer, yet the call does not return success.
\<close>

theorem bt_parse_le_meta_event_negative_length:
  "bt_parse_le_meta_event (Suc fuel) True
     [0x04, 0x3E, 0x0C, 0x02, 0x01, 0x00, 0x00, 0x01, 0x02, 0x03, 0x04, 0x05, 0x06, 0x02,
      0xFF, 0x09, 0xC0] = Fault"
  by (simp add: bt_parse_le_meta_event_def HCI_EVENT_HDR_SIZE_def read_byte_def read_bdaddr_def
      read_bytes_def kMaxNameLength_def eir_walk.simps char_to_int_def EIR_NAME_SHORT_def
      EIR_NAME_COMPLETE_def memcpy_name_def Let_def)

text \<open>
  With the type byte 00 in place of 09 the same length byte sends the walk back to where
  it started: it does not end, whatever the budget.
\<close>

lemma eir_walk_negative_length_loops:
  "eir_walk fuel True
     [0x04, 0x3E, 0x0C, 0x02, 0x01, 0x00, 0x00, 0x01, 0x02, 0x03, 0x04, 0x05, 0x06, 0x02,
      0xFF, 0x00, 0xC0] 16 14 name = OutOfFuel"
  by (induction fuel) (simp_all add: read_byte_def eir_walk.simps char_to_int_def EIR_NAME_SHORT_def
      EIR_NAME_COMPLETE_def Let_def)

text \<open>The two other branches of the dispatch on the subevent hold for every buffer.\<close>

lemma bt_parse_le_meta_event_connection_complete:
  "read_byte data 3 = Some 0x01 \<Longrightarrow>
   bt_parse_le_meta_event fuel char_signed data = Returns (None, only_done 1)"
  by (simp add: bt_parse_le_meta_event_def HCI_EVENT_HDR_SIZE_def)

lemma bt_parse_le_meta_event_wrong_event:
  "read_byte data 3 = Some s \<Longrightarrow> s \<noteq> 0x01 \<Longrightarrow> s \<noteq> 0x02 \<Longrightarrow>
   bt_parse_le_meta_event fuel char_signed data =
     Returns (Some (WrongEventType (uint s)), only_done 0)"
  by (simp add: bt_parse_le_meta_event_def HCI_EVENT_HDR_SIZE_def asprintf_def)

text \<open>
  The dispatch on the subevent, for every buffer that holds the subevent byte: subevent
  01 gives success with \<^verbatim>\<open>done\<close> = 1 and nothing else stored; a subevent other than 01
  and 02 gives the \<open>WrongEventType\<close> error carrying the subevent, with \<^verbatim>\<open>done\<close> = 0 and
  nothing else stored.
\<close>

theorem bt_parse_le_meta_event_dispatch:
  assumes "read_byte data 3 = Some s"
  shows "(s = 0x01 \<longrightarrow>
            bt_parse_le_meta_event fuel char_signed data = Returns (None, only_done 1)) \<and>
         (s \<noteq> 0x01 \<and> s \<noteq> 0x02 \<longrightarrow>
            bt_parse_le_meta_event fuel char_signed data =
              Returns (Some (WrongEventType (uint s)), only_done 0))"
  using assms
  by (simp add: bt_parse_le_meta_event_connection_complete bt_parse_le_meta_event_wrong_event)

theorem bt_parse_le_meta_event_dispatch_witness:
  "bt_parse_le_meta_event 0 True [0x04, 0x3E, 0x01, 0x01] = Returns (None, only_done 1) \<and>
   bt_parse_le_meta_event 0 True [0x04, 0x3E, 0x01, 0x07] =
     Returns (Some (WrongEventType 7), only_done 0)"
proof -
  have 1: "read_byte [0x04, 0x3E, 0x01, 0x01] 3 = Some 0x01"
    by (simp add: read_byte_def)
  have 2: "read_byte [0x04, 0x3E, 0x01, 0x07] 3 = Some 0x07"
    by (simp add: read_byte_def)
  show ?thesis
    using bt_parse_le_meta_event_dispatch [OF 1, of 0 True]
      bt_parse_le_meta_event_dispatch [OF 2, of 0 True]
    by simp
qed

text \<open>
  Where no byte of the advertising data is negative as a \<^verbatim>\<open>char\<close>, which is so for
  every buffer when \<^verbatim>\<open>char\<close> is unsigned, the walk stays inside the advertising data and
  ends within as many iterations as there are bytes.
\<close>

lemma read_byte_in:
  "0 \<le> i \<Longrightarrow> i < int (length buf) \<Longrightarrow> \<exists>b. read_byte buf i = Some b"
  by (simp add: read_byte_def)

lemma memcpy_name_in:
  assumes "0 \<le> n" and "n \<le> 31" and "length name = 31"
    and "0 \<le> p" and "p + n \<le> int (length buf)"
  shows "\<exists>name'. memcpy_name name buf p n = Returns name' \<and> length name' = 31"
  using assms by (simp add: memcpy_name_def read_bytes_def) 

lemma eir_walk_returns:
  assumes "0 \<le> lo" and "lo \<le> ptr" and "ptr \<le> end_ptr" and "end_ptr \<le> int (length buf)"
    and "length name = 31" and "nat (end_ptr - ptr) < fuel"
    and nonneg: "\<forall>i. lo \<le> i \<and> i < end_ptr \<longrightarrow> 0 \<le> char_to_int cs (buf ! nat i)"
  shows "\<exists>name'. eir_walk fuel cs buf end_ptr ptr name = Returns name' \<and> length name' = 31"
  using assms(2-6)
proof (induction fuel arbitrary: ptr name)
  case 0
  then show ?case by simp
next
  case (Suc fuel)
  show ?case
  proof (cases "ptr < end_ptr")
    case False
    then show ?thesis using Suc.prems(4) by (simp add: eir_walk.simps)
  next
    case True
    have l: "read_byte buf ptr = Some (buf ! nat ptr)"
      using True Suc.prems assms(1) by (simp add: read_byte_def)
    define n where "n = char_to_int cs (buf ! nat ptr)"
    have n0: "0 \<le> n" using nonneg True Suc.prems(1) by (simp add: n_def)
    show ?thesis
    proof (cases "n = 0 \<or> ptr + 1 + n > end_ptr")
      case True
      then show ?thesis
        using \<open>ptr < end_ptr\<close> l Suc.prems(4)
        by (auto simp add: eir_walk.simps n_def Let_def)
    next
      case False
      then have n1: "1 \<le> n" and fit: "ptr + 1 + n \<le> end_ptr" using n0 by auto
      obtain t where t: "read_byte buf (ptr + 1) = Some t"
        using read_byte_in [of "ptr + 1" buf] Suc.prems assms(1) n1 fit by auto
      have IH: "\<exists>name'. eir_walk fuel cs buf end_ptr (ptr + 1 + 1 + (n - 1)) nm = Returns name' \<and>
          length name' = 31" if "length nm = 31" for nm
        using Suc.prems n1 fit that by (intro Suc.IH) auto
      show ?thesis
      proof (cases "(char_to_int cs t = 8 \<or> char_to_int cs t = 9) \<and> \<not> n - 1 > 31")
        case False
        then show ?thesis
          using \<open>ptr < end_ptr\<close> l t n1 fit IH [OF Suc.prems(4)]
          by (auto simp add: eir_walk.simps n_def Let_def EIR_NAME_SHORT_def
              EIR_NAME_COMPLETE_def kMaxNameLength_def)
      next
        case True
        obtain nm where nm: "memcpy_name name buf (ptr + 1 + 1) (n - 1) = Returns nm" "length nm = 31"
          using memcpy_name_in [of "n - 1" name "ptr + 1 + 1" buf] True n1 fit Suc.prems assms(1)
          by auto
        show ?thesis
          using \<open>ptr < end_ptr\<close> l t n1 fit IH [OF nm(2)] True nm(1)
          by (auto simp add: eir_walk.simps n_def Let_def EIR_NAME_SHORT_def
              EIR_NAME_COMPLETE_def kMaxNameLength_def)
      qed
    qed
  qed
qed

lemma list_of_length_6:
  "length xs = 6 \<Longrightarrow> \<exists>b0 b1 b2 b3 b4 b5. xs = [b0, b1, b2, b3, b4, b5]"
  by (auto simp add: eval_nat_numeral length_Suc_conv)

lemma read_bdaddr_in:
  assumes "0 \<le> i" and "i + 6 \<le> int (length buf)"
  shows "\<exists>b. read_bdaddr buf i = Some b"
proof -
  have "length (take 6 (drop (nat i) buf)) = 6" using assms by auto
  then obtain b0 b1 b2 b3 b4 b5 where "take 6 (drop (nat i) buf) = [b0, b1, b2, b3, b4, b5]"
    using list_of_length_6 by blast
  then show ?thesis using assms by (simp add: read_bdaddr_def read_bytes_def)
qed

text \<open>
  The branch of subevent 02, for a buffer that holds the whole report (its 14 leading
  bytes, the advertising data of the length announced at offset 13 and the RSSI byte)
  and whose advertising data hold no byte that is negative as a \<^verbatim>\<open>char\<close>: the parser
  returns success with \<^verbatim>\<open>done\<close> = 0, the address read at offset 7, the RSSI read behind
  the advertising data, and a name buffer of 31 bytes.
\<close>

theorem bt_parse_le_meta_event_decodes_report:
  assumes sub: "read_byte data 3 = Some 0x02"
    and len: "read_byte data 13 = Some len"
    and whole: "15 + uint len \<le> int (length data)"
    and nonneg: "\<forall>i. 14 \<le> i \<and> i < 14 + uint len \<longrightarrow> 0 \<le> char_to_int char_signed (data ! nat i)"
    and fuel: "nat (uint len) < fuel"
  shows "\<exists>bdaddr name r.
           read_bdaddr data 7 = Some bdaddr \<and> read_byte data (14 + uint len) = Some r \<and>
           length name = 31 \<and>
           bt_parse_le_meta_event fuel char_signed data =
             Returns (None,
               \<lparr>remote_addr_written = Some (ba2str bdaddr),
                remote_name_written = Some name,
                rssi_written = Some (sint r),
                done_written = Some 0\<rparr>)"
proof -
  have u: "0 \<le> uint len" by simp
  obtain bdaddr where b: "read_bdaddr data 7 = Some bdaddr"
    using read_bdaddr_in [of 7 data] whole u by auto
  obtain r where r: "read_byte data (14 + uint len) = Some r"
    using read_byte_in [of "14 + uint len" data] whole u by auto
  obtain name where n: "eir_walk fuel char_signed data (14 + uint len) 14 (replicate 31 0) =
      Returns name" "length name = 31"
    using eir_walk_returns [of 14 14 "14 + uint len" data "replicate 31 0" fuel char_signed]
      whole nonneg fuel u by auto
  have "bt_parse_le_meta_event fuel char_signed data =
      Returns (None,
        \<lparr>remote_addr_written = Some (ba2str bdaddr), remote_name_written = Some name,
         rssi_written = Some (sint r), done_written = Some 0\<rparr>)"
    by (simp add: bt_parse_le_meta_event_def HCI_EVENT_HDR_SIZE_def sub len b r n(1)
        kMaxNameLength_def)
  with b r n(2) show ?thesis by blast
qed

text \<open>With an unsigned \<^verbatim>\<open>char\<close> the record FF 09 ends the walk and the name is empty.\<close>

theorem bt_parse_le_meta_event_decodes_report_witness:
  "bt_parse_le_meta_event (Suc (Suc (Suc 0))) False
     [0x04, 0x3E, 0x0C, 0x02, 0x01, 0x00, 0x00, 0x01, 0x02, 0x03, 0x04, 0x05, 0x06, 0x02,
      0xFF, 0x09, 0xC0] =
   Returns (None,
     \<lparr>remote_addr_written = Some ''06:05:04:03:02:01'',
      remote_name_written = Some (replicate 31 0),
      rssi_written = Some (- 64),
      done_written = Some 0\<rparr>)"
proof -
  let ?data = "[0x04, 0x3E, 0x0C, 0x02, 0x01, 0x00, 0x00, 0x01, 0x02, 0x03, 0x04, 0x05, 0x06,
    0x02, 0xFF, 0x09, 0xC0] :: byte list"
  have 1: "read_byte ?data 3 = Some 0x02" by (simp add: read_byte_def)
  have 2: "read_byte ?data 13 = Some 0x02" by (simp add: read_byte_def)
  have 3: "15 + uint (0x02 :: byte) \<le> int (length ?data)" by simp
  have 4: "\<forall>i. 14 \<le> i \<and> i < 14 + uint (0x02 :: byte) \<longrightarrow>
      0 \<le> char_to_int False (?data ! nat i)"
    by (simp add: char_to_int_def)
  have 5: "nat (uint (0x02 :: byte)) < Suc (Suc (Suc 0))" by simp
  have "\<exists>bdaddr name r.
      read_bdaddr ?data 7 = Some bdaddr \<and> read_byte ?data (14 + uint (0x02 :: byte)) = Some r \<and>
      length name = 31 \<and>
      bt_parse_le_meta_event (Suc (Suc (Suc 0))) False ?data =
        Returns (None,
          \<lparr>remote_addr_written = Some (ba2str bdaddr), remote_name_written = Some name,
           rssi_written = Some (sint r), done_written = Some 0\<rparr>)"
    by (rule bt_parse_le_meta_event_decodes_report [OF 1 2 3 4 5])
  moreover have "bt_parse_le_meta_event (Suc (Suc (Suc 0))) False ?data =
      Returns (None,
        \<lparr>remote_addr_written = Some ''06:05:04:03:02:01'',
         remote_name_written = Some (replicate 31 0),
         rssi_written = Some (- 64),
         done_written = Some 0\<rparr>)"
    by (simp add: bt_parse_le_meta_event_def HCI_EVENT_HDR_SIZE_def read_byte_def
        read_bdaddr_def read_bytes_def kMaxNameLength_def eir_walk.simps char_to_int_def
        hex2_def hex_digit_def Let_def)
  ultimately show ?thesis by simp
qed

subsection \<open>The bind resolver\<close>

lemma bind_attempts_0: "bind_attempts sock a 0 = []"
  by (simp add: bind_attempts_def)

lemma bind_attempts_step:
  "1 \<le> c \<Longrightarrow> bind_attempts sock a c = bind_attempts sock a (c - 1) @ [Sys_bind sock a (of_int c)]"
  by (simp add: bind_attempts_def upto_rec2)

lemma bt_bind_leaf:
  "channel \<noteq> 0 \<Longrightarrow>
   bt_bind (Suc fuel) e w sock (Ptr a) channel =
     (if bind_result e w sock a (of_int channel) < 0
      then Returns (Some (BindError sock a channel), w @ [Sys_bind sock a (of_int channel)], Ptr a, channel)
      else Returns (None, w @ [Sys_bind sock a (of_int channel)], Ptr a, channel))"
  by (simp add: Let_def)

lemma bt_bind_channels_step:
  assumes "1 \<le> c" and "c < 30"
  shows "bt_bind_channels (Suc (Suc fuel)) e (w @ bind_attempts sock a (c - 1)) sock (Ptr a) c =
     (if bind_fails e w sock a c
      then bt_bind_channels (Suc fuel) e (w @ bind_attempts sock a c) sock (Ptr a) (c + 1)
      else Returns (None, w @ bind_attempts sock a c, Ptr a, c))"
proof -
  have c0: "c \<noteq> 0" using assms by simp
  show ?thesis
    using assms
    by (simp add: bt_bind_leaf [OF c0] kMaxChannel_def bind_fails_def bind_attempts_step [of c]
        del: bt_bind.simps bt_bind_channels.simps(2) [of "Suc fuel"])
qed


lemma bt_bind_sentinel_channel:
  "bt_bind (Suc fuel) e w sock (Ptr a) 0 =
     bt_bind_channels fuel e (w @ bind_attempts sock a (1 - 1)) sock (Ptr a) 1"
  by (simp add: bind_attempts_0)

lemma bt_bind_channels_end:
  "bt_bind_channels (Suc fuel) e w sock la 30 = Returns (Some NoChannelAvailable, w, la, 30)"
  by (simp add: kMaxChannel_def)

declare bt_bind.simps [simp del] bt_bind_devices.simps [simp del] bt_bind_channels.simps [simp del]

lemma bt_bind_channels_exhausted:
  assumes "1 \<le> c" and "c \<le> 30"
    and "\<forall>k \<in> {c..29}. bind_fails e w sock a k"
    and "nat (31 - c) \<le> fuel"
  shows "bt_bind_channels fuel e (w @ bind_attempts sock a (c - 1)) sock (Ptr a) c =
           Returns (Some NoChannelAvailable, w @ bind_attempts sock a 29, Ptr a, 30)"
  using assms
proof (induction "nat (30 - c)" arbitrary: c fuel)
  case 0
  then have c: "c = 30" by simp
  from 0 obtain f where "fuel = Suc f" by (cases fuel) auto
  then show ?case by (simp add: c bt_bind_channels_end)
next
  case (Suc m)
  then have c: "c < 30" by simp
  with Suc.prems obtain f where f: "fuel = Suc (Suc f)"
    by (cases fuel; cases "fuel - 1") auto
  have fl: "bind_fails e w sock a c" using Suc.prems c by simp
  have "bt_bind_channels fuel e (w @ bind_attempts sock a (c - 1)) sock (Ptr a) c =
        bt_bind_channels (Suc f) e (w @ bind_attempts sock a (c + 1 - 1)) sock (Ptr a) (c + 1)"
    unfolding f using bt_bind_channels_step [OF Suc.prems(1) c, of f e w sock a] fl by simp
  also have "\<dots> = Returns (Some NoChannelAvailable, w @ bind_attempts sock a 29, Ptr a, 30)"
  proof (rule Suc.hyps(1))
    show "m = nat (30 - (c + 1))" using Suc.hyps(2) by simp
    show "1 \<le> c + 1" using Suc.prems(1) by simp
    show "c + 1 \<le> 30" using c by simp
    show "\<forall>k \<in> {c + 1..29}. bind_fails e w sock a k" using Suc.prems(3) by simp
    show "nat (31 - (c + 1)) \<le> Suc f" using Suc.prems(4) f by simp
  qed
  finally show ?case .
qed

lemma bt_bind_channels_first_success:
  assumes "1 \<le> c" and "c \<le> k" and "k \<le> 29"
    and "\<forall>j \<in> {c..<k}. bind_fails e w sock a j"
    and "\<not> bind_fails e w sock a k"
    and "nat (k - c) + 2 \<le> fuel"
  shows "bt_bind_channels fuel e (w @ bind_attempts sock a (c - 1)) sock (Ptr a) c =
           Returns (None, w @ bind_attempts sock a k, Ptr a, k)"
  using assms
proof (induction "nat (k - c)" arbitrary: c fuel)
  case 0
  then have c: "c = k" by simp
  from 0 obtain f where f: "fuel = Suc (Suc f)"
    by (cases fuel; cases "fuel - 1") auto
  have "k < 30" using 0 by simp
  then show ?case
    unfolding f c using bt_bind_channels_step [of k f e w sock a] 0 by simp
next
  case (Suc m)
  then have c: "c < k" by simp
  then have c30: "c < 30" using Suc.prems by simp
  from Suc obtain f where f: "fuel = Suc (Suc f)"
    by (cases fuel; cases "fuel - 1") auto
  have fl: "bind_fails e w sock a c" using Suc.prems c by simp
  have "bt_bind_channels fuel e (w @ bind_attempts sock a (c - 1)) sock (Ptr a) c =
        bt_bind_channels (Suc f) e (w @ bind_attempts sock a (c + 1 - 1)) sock (Ptr a) (c + 1)"
    unfolding f using bt_bind_channels_step [OF Suc.prems(1) c30, of f e w sock a] fl by simp
  also have "\<dots> = Returns (None, w @ bind_attempts sock a k, Ptr a, k)"
  proof (rule Suc.hyps(1))
    show "m = nat (k - (c + 1))" using Suc.hyps(2) by simp
    show "1 \<le> c + 1" using Suc.prems(1) by simp
    show "c + 1 \<le> k" using c by simp
    show "k \<le> 29" by fact
    show "\<forall>j \<in> {c + 1..<k}. bind_fails e w sock a j" using Suc.prems(4) by simp
    show "\<not> bind_fails e w sock a k" by fact
    show "nat (k - (c + 1)) + 2 \<le> Suc f" using Suc.prems(6) f c by simp
  qed
  finally show ?case .
qed

text \<open>
  C7. With an address supplied and the channel 0, \<^verbatim>\<open>bt_bind\<close> tries the channels
  1, 2, ... in ascending order on that address. If the attempt on channel \<open>k \<le> 29\<close> is
  the first that the kernel accepts, the calls made are exactly the binds on 1 to \<open>k\<close>,
  the call succeeds and \<^verbatim>\<open>*channel\<close> is \<open>k\<close>. If the attempts on 1 to 29 all fail, all
  29 were made and the error is \<open>NoChannelAvailable\<close>: the error of the last attempt is
  dropped and the exhaustion error takes its place.
\<close>

theorem bt_bind_channel_search:
  assumes "31 \<le> fuel"
  shows "(1 \<le> k \<and> k \<le> 29 \<and> (\<forall>j \<in> {1..<k}. bind_fails e w sock a j) \<and>
              \<not> bind_fails e w sock a k \<longrightarrow>
            bt_bind fuel e w sock (Ptr a) 0 =
              Returns (None, w @ bind_attempts sock a k, Ptr a, k)) \<and>
         ((\<forall>j \<in> {1..29}. bind_fails e w sock a j) \<longrightarrow>
            bt_bind fuel e w sock (Ptr a) 0 =
              Returns (Some NoChannelAvailable, w @ bind_attempts sock a 29, Ptr a, 30))"
proof -
  from assms obtain f where f: "fuel = Suc f" "30 \<le> f" by (cases fuel) auto
  show ?thesis
  proof (intro conjI impI)
    assume k: "1 \<le> k \<and> k \<le> 29 \<and> (\<forall>j \<in> {1..<k}. bind_fails e w sock a j) \<and>
      \<not> bind_fails e w sock a k"
    then have "nat (k - 1) + 2 \<le> f" using f(2) by arith
    with k have "bt_bind_channels f e (w @ bind_attempts sock a (1 - 1)) sock (Ptr a) 1 =
        Returns (None, w @ bind_attempts sock a k, Ptr a, k)"
      by (intro bt_bind_channels_first_success) simp_all
    then show "bt_bind fuel e w sock (Ptr a) 0 =
        Returns (None, w @ bind_attempts sock a k, Ptr a, k)"
      by (simp only: f(1) bt_bind_sentinel_channel)
  next
    assume "\<forall>j \<in> {1..29}. bind_fails e w sock a j"
    then have "bt_bind_channels f e (w @ bind_attempts sock a (1 - 1)) sock (Ptr a) 1 =
        Returns (Some NoChannelAvailable, w @ bind_attempts sock a 29, Ptr a, 30)"
      using f(2) by (intro bt_bind_channels_exhausted) simp_all
    then show "bt_bind fuel e w sock (Ptr a) 0 =
        Returns (Some NoChannelAvailable, w @ bind_attempts sock a 29, Ptr a, 30)"
      by (simp only: f(1) bt_bind_sentinel_channel)
  qed
qed

text \<open>
  The scenarios S5 and S6 of the specification: the kernel accepts channel 4 only, or no
  channel at all.
\<close>

theorem bt_bind_channel_search_witness:
  "bt_bind 31 (env_two_devices (\<lambda>a c. a = ''AA:BB:CC:DD:EE:FF'' \<and> uint c = 4)) [] 5
       (Ptr ''AA:BB:CC:DD:EE:FF'') 0 =
     Returns (None,
       [Sys_bind 5 ''AA:BB:CC:DD:EE:FF'' 1, Sys_bind 5 ''AA:BB:CC:DD:EE:FF'' 2,
        Sys_bind 5 ''AA:BB:CC:DD:EE:FF'' 3, Sys_bind 5 ''AA:BB:CC:DD:EE:FF'' 4],
       Ptr ''AA:BB:CC:DD:EE:FF'', 4) \<and>
   bt_bind 31 (env_two_devices (\<lambda>a c. False)) [] 5 (Ptr ''AA:BB:CC:DD:EE:FF'') 0 =
     Returns (Some NoChannelAvailable, bind_attempts 5 ''AA:BB:CC:DD:EE:FF'' 29,
       Ptr ''AA:BB:CC:DD:EE:FF'', 30)"
proof -
  let ?a = "''AA:BB:CC:DD:EE:FF''"
  let ?e = "env_two_devices (\<lambda>a c. a = ?a \<and> uint c = 4)"
  have u: "uint (word_of_int j :: byte) = j" if "1 \<le> j" "j \<le> 4" for j
    using that by (simp add: uint_word_of_int)
  have 1: "\<forall>j \<in> {1..<4}. bind_fails ?e [] 5 ?a j"
    by (auto simp add: bind_fails_def env_two_devices_def u)
  have 2: "\<not> bind_fails ?e [] 5 ?a 4"
    by (simp add: bind_fails_def env_two_devices_def)
  have 3: "\<forall>j \<in> {1..29}. bind_fails (env_two_devices (\<lambda>a c. False)) [] 5 ?a j"
    by (simp add: bind_fails_def env_two_devices_def)
  have 4: "bind_attempts 5 ?a 4 = [Sys_bind 5 ?a 1, Sys_bind 5 ?a 2, Sys_bind 5 ?a 3, Sys_bind 5 ?a 4]"
    by code_simp
  show ?thesis
    using bt_bind_channel_search [where fuel = 31 and e = ?e and w = "[]" and sock = 5
        and a = ?a and k = 4]
      bt_bind_channel_search [where fuel = 31 and e = "env_two_devices (\<lambda>a c. False)"
        and w = "[]" and sock = 5 and a = ?a and k = 1] 1 2 3 4
    by simp
qed

text \<open>
  C9. With an address supplied and the channel 0, when none of the attempts on the
  channels 1 to 29 succeeds the call returns an error and leaves \<^verbatim>\<open>*channel\<close> equal to
  \<open>kMaxChannel\<close>, that is 30: not the sentinel 0 and not a channel of the range 1 to 29.
\<close>

theorem bt_bind_exhausted_channel_is_kMaxChannel:
  assumes "31 \<le> fuel" and "\<forall>j \<in> {1..29}. bind_fails e w sock a j"
  shows "bt_bind fuel e w sock (Ptr a) 0 =
           Returns (Some NoChannelAvailable, w @ bind_attempts sock a 29, Ptr a, kMaxChannel) \<and>
         kMaxChannel = 30 \<and> kMaxChannel \<noteq> 0 \<and> kMaxChannel \<notin> {1..29}"
proof -
  from assms obtain f where f: "fuel = Suc f" "30 \<le> f" by (cases fuel) auto
  have "bt_bind_channels f e (w @ bind_attempts sock a (1 - 1)) sock (Ptr a) 1 =
      Returns (Some NoChannelAvailable, w @ bind_attempts sock a 29, Ptr a, 30)"
    using assms(2) f(2) by (intro bt_bind_channels_exhausted) simp_all
  then show ?thesis
    by (simp add: f(1) bt_bind_sentinel_channel kMaxChannel_def)
qed

theorem bt_bind_exhausted_channel_is_kMaxChannel_witness:
  "bt_bind 31 (env_two_devices (\<lambda>a c. a = addr_B)) [Sys_close 3] 5 (Ptr addr_A) 0 =
     Returns (Some NoChannelAvailable, Sys_close 3 # bind_attempts 5 addr_A 29, Ptr addr_A, 30)"
proof -
  have "\<forall>j \<in> {1..29}. bind_fails (env_two_devices (\<lambda>a c. a = addr_B)) [Sys_close 3] 5 addr_A j"
    by (simp add: bind_fails_def env_two_devices_def addr_A_def addr_B_def)
  then show ?thesis
    using bt_bind_exhausted_channel_is_kMaxChannel
      [of 31 "env_two_devices (\<lambda>a c. a = addr_B)" "[Sys_close 3]" 5 addr_A]
    by (simp add: kMaxChannel_def)
qed

text \<open>
  With an address supplied and the channel 0, a call that succeeds leaves a channel
  between 1 and 29 in \<^verbatim>\<open>*channel\<close>, leaves the address as it was, and has made the bind
  calls on the channels from 1 up to that channel and no other call.
\<close>

theorem bt_bind_supplied_address_channel_range:
  assumes fuel: "31 \<le> fuel"
    and ok: "bt_bind fuel e w sock (Ptr a) 0 = Returns (None, w', la, ch)"
  shows "1 \<le> ch \<and> ch \<le> 29 \<and> la = Ptr a \<and> w' = w @ bind_attempts sock a ch"
proof (cases "\<forall>j \<in> {1..29}. bind_fails e w sock a j")
  case True
  from fuel obtain f where f: "fuel = Suc f" "30 \<le> f" by (cases fuel) auto
  have "bt_bind_channels f e (w @ bind_attempts sock a (1 - 1)) sock (Ptr a) 1 =
      Returns (Some NoChannelAvailable, w @ bind_attempts sock a 29, Ptr a, 30)"
    using True f(2) by (intro bt_bind_channels_exhausted) simp_all
  then have "bt_bind fuel e w sock (Ptr a) 0 =
      Returns (Some NoChannelAvailable, w @ bind_attempts sock a 29, Ptr a, 30)"
    by (simp only: f(1) bt_bind_sentinel_channel)
  with ok show ?thesis by simp
next
  case False
  define Q where "Q n = (1 \<le> int n \<and> int n \<le> 29 \<and> \<not> bind_fails e w sock a (int n))" for n
  from False obtain j where j: "1 \<le> j" "j \<le> 29" "\<not> bind_fails e w sock a j" by auto
  then have "Q (nat j)" by (simp add: Q_def)
  then have ex: "\<exists>n. Q n" ..
  define k where "k = (LEAST n. Q n)"
  have Qk: "Q k" unfolding k_def using ex by (rule LeastI_ex)
  have least: "\<not> Q m" if "m < k" for m
    using that unfolding k_def by (rule not_less_Least)
  have below: "\<forall>i \<in> {1..<int k}. bind_fails e w sock a i"
  proof
    fix i assume i: "i \<in> {1..<int k}"
    then have "nat i < k" by auto
    then have "\<not> Q (nat i)" by (rule least)
    moreover have "int (nat i) = i" using i by simp
    moreover have "i \<le> 29" using i Qk by (simp add: Q_def)
    ultimately show "bind_fails e w sock a i" using i by (simp add: Q_def)
  qed
  from fuel obtain f where f: "fuel = Suc f" "30 \<le> f" by (cases fuel) auto
  have "nat (int k - 1) + 2 \<le> f" using f(2) Qk unfolding Q_def by arith
  with Qk below have "bt_bind_channels f e (w @ bind_attempts sock a (1 - 1)) sock (Ptr a) 1 =
      Returns (None, w @ bind_attempts sock a (int k), Ptr a, int k)"
    by (intro bt_bind_channels_first_success) (simp_all add: Q_def)
  then have "bt_bind fuel e w sock (Ptr a) 0 =
      Returns (None, w @ bind_attempts sock a (int k), Ptr a, int k)"
    by (simp only: f(1) bt_bind_sentinel_channel)
  with ok Qk show ?thesis by (auto simp add: Q_def)
qed

theorem bt_bind_supplied_address_channel_range_witness:
  "(1::int) \<le> 4 \<and> (4::int) \<le> 29 \<and>
   bt_bind 31 (env_two_devices (\<lambda>a c. a = addr_A \<and> uint c = 4)) [] 5 (Ptr addr_A) 0 =
     Returns (None, bind_attempts 5 addr_A 4, Ptr addr_A, 4)"
proof -
  have r: "bt_bind 31 (env_two_devices (\<lambda>a c. a = addr_A \<and> uint c = 4)) [] 5 (Ptr addr_A) 0 =
     Returns (None, bind_attempts 5 addr_A 4, Ptr addr_A, 4)"
    by code_simp
  show ?thesis
    using bt_bind_supplied_address_channel_range [OF _ r] r by simp
qed

text \<open>
  C2 (the source departs from the specification here). With both the address and the
  channel left to the resolver, the first controller is \<^verbatim>\<open>hci0\<close> at \<open>addr_A\<close>, on which
  every bind fails, and the second is \<^verbatim>\<open>hci1\<close> at \<open>addr_B\<close>, on which the kernel accepts
  channel 1. The channel loop on \<open>addr_A\<close> leaves \<^verbatim>\<open>*channel\<close> at 30, so the call for
  \<open>addr_B\<close> finds a channel that is not 0 and makes the single attempt on channel 30:
  the channels 1 to 29 of \<open>addr_B\<close> are never tried and the call fails with
  \<open>NoDeviceAvailable\<close>, although the pair of \<open>addr_B\<close> and channel 1 works.
\<close>

theorem bt_bind_second_device_skips_channels:
  "bt_bind 40 (env_two_devices (\<lambda>a c. a = addr_B \<and> c = 1)) [] 5 Null 0 =
     Returns (Some NoDeviceAvailable,
       [Sys_socket, Sys_ioctl_HCIGETDEVINFO 3 0, Sys_ioctl_HCIDEVUP 3 0, Sys_hci_open_dev 0,
        Sys_hci_devba 0, Sys_hci_close_dev 4]
       @ bind_attempts 5 addr_A 29
       @ [Sys_socket, Sys_ioctl_HCIGETDEVINFO 3 1, Sys_ioctl_HCIDEVUP 3 1, Sys_hci_open_dev 1,
          Sys_hci_devba 1, Sys_hci_close_dev 4, Sys_bind 5 addr_B 30,
          Sys_socket, Sys_ioctl_HCIGETDEVINFO 3 2, Sys_close 3,
          Sys_socket, Sys_ioctl_HCIGETDEVINFO 3 3, Sys_close 3,
          Sys_socket, Sys_ioctl_HCIGETDEVINFO 3 4, Sys_close 3],
       Freed, 30) \<and>
   bind_result (env_two_devices (\<lambda>a c. a = addr_B \<and> c = 1)) w 5 addr_B 1 = 0"
proof
  show "bt_bind 40 (env_two_devices (\<lambda>a c. a = addr_B \<and> c = 1)) [] 5 Null 0 =
     Returns (Some NoDeviceAvailable,
       [Sys_socket, Sys_ioctl_HCIGETDEVINFO 3 0, Sys_ioctl_HCIDEVUP 3 0, Sys_hci_open_dev 0,
        Sys_hci_devba 0, Sys_hci_close_dev 4]
       @ bind_attempts 5 addr_A 29
       @ [Sys_socket, Sys_ioctl_HCIGETDEVINFO 3 1, Sys_ioctl_HCIDEVUP 3 1, Sys_hci_open_dev 1,
          Sys_hci_devba 1, Sys_hci_close_dev 4, Sys_bind 5 addr_B 30,
          Sys_socket, Sys_ioctl_HCIGETDEVINFO 3 2, Sys_close 3,
          Sys_socket, Sys_ioctl_HCIGETDEVINFO 3 3, Sys_close 3,
          Sys_socket, Sys_ioctl_HCIGETDEVINFO 3 4, Sys_close 3],
       Freed, 30)"
    by code_simp
  show "bind_result (env_two_devices (\<lambda>a c. a = addr_B \<and> c = 1)) w 5 addr_B 1 = 0"
    by (simp add: env_two_devices_def)
qed

text \<open>
  C6 (the source departs from the specification here). In the same setting, but with
  the kernel accepting channel 30 on \<open>addr_B\<close> and nothing else, the call with both
  sentinels returns success and the channel it leaves in \<^verbatim>\<open>*channel\<close> is 30, outside
  the range from 1 to 29.
\<close>

theorem bt_bind_returns_channel_30:
  "bt_bind 40 (env_two_devices (\<lambda>a c. a = addr_B \<and> c = 30)) [] 5 Null 0 =
     Returns (None,
       [Sys_socket, Sys_ioctl_HCIGETDEVINFO 3 0, Sys_ioctl_HCIDEVUP 3 0, Sys_hci_open_dev 0,
        Sys_hci_devba 0, Sys_hci_close_dev 4]
       @ bind_attempts 5 addr_A 29
       @ [Sys_socket, Sys_ioctl_HCIGETDEVINFO 3 1, Sys_ioctl_HCIDEVUP 3 1, Sys_hci_open_dev 1,
          Sys_hci_devba 1, Sys_hci_close_dev 4, Sys_bind 5 addr_B 30],
       Ptr addr_B, 30)"
  by code_simp

end
